theory Spec2Isabelle
  imports Complex_Main "HOL-Library.Multiset"
begin

section \<open>JavaScript numbers\<close>

text \<open>
  Every numeric field of the ledger (\<open>amount\<close>, \<open>openingBalance\<close>) and every total
  is a JavaScript \<open>number\<close>.  The model keeps the three special values the code can
  produce (\<open>NaN\<close> from \<open>Number("abc")\<close>, the two infinities from
  \<open>Number("Infinity")\<close>) and idealises every other value as an exact rational:
  rounding of IEEE doubles, overflow and the sign of zero are left out, so the arithmetic
  below is the decimal arithmetic of the data model.
\<close>

datatype number = Fin rat | PInf | NInf | NaN

instantiation number :: "{comm_monoid_add, uminus, minus}"
begin

definition zero_number :: number where
  "zero_number = Fin 0"

fun plus_number :: "number \<Rightarrow> number \<Rightarrow> number" where
  "plus_number (Fin a) (Fin b) = Fin (a + b)"
| "plus_number NaN _ = NaN"
| "plus_number _ NaN = NaN"
| "plus_number PInf NInf = NaN"
| "plus_number NInf PInf = NaN"
| "plus_number PInf _ = PInf"
| "plus_number _ PInf = PInf"
| "plus_number NInf _ = NInf"
| "plus_number _ NInf = NInf"

fun uminus_number :: "number \<Rightarrow> number" where
  "uminus_number (Fin a) = Fin (- a)"
| "uminus_number PInf = NInf"
| "uminus_number NInf = PInf"
| "uminus_number NaN = NaN"

definition minus_number :: "number \<Rightarrow> number \<Rightarrow> number" where
  "minus_number a b = a + (- b)"

instance
proof
  fix x y z :: number
  show "x + y = y + x"
    by (cases x; cases y) auto
  show "0 + x = x"
    by (cases x) (auto simp: zero_number_def)
  show "x + y + z = x + (y + z)"
    by (cases x; cases y; cases z) auto
qed

end

text \<open>JavaScript truthiness of a number: \<open>0\<close> and \<open>NaN\<close> are falsy.\<close>

definition truthy_number :: "number \<Rightarrow> bool" where
  "truthy_number n = (n \<noteq> Fin 0 \<and> n \<noteq> NaN)"

text \<open>The expression \<open>n || 0\<close>.\<close>

definition or_zero :: "number \<Rightarrow> number" where
  "or_zero n = (if truthy_number n then n else Fin 0)"

text \<open>JavaScript truthiness of a string, and of a \<open>string | null\<close> selection.\<close>

definition truthy_string :: "string \<Rightarrow> bool" where
  "truthy_string s = (s \<noteq> [])"

definition truthy_selection :: "string option \<Rightarrow> bool" where
  "truthy_selection sel = (case sel of None \<Rightarrow> False | Some s \<Rightarrow> truthy_string s)"

section \<open>The conversion \<open>Number(text)\<close>\<close>

text \<open>
  \<open>Number\<close> applied to a string follows the \<open>StringNumericLiteral\<close> grammar of
  ECMAScript: surrounding white space is dropped, the empty string is \<open>0\<close>, then
  comes either a signed decimal literal (digits, optional fraction, optional exponent, or
  \<open>Infinity\<close>) or an unsigned literal with prefix \<open>0x\<close>, \<open>0o\<close> or \<open>0b\<close>; anything
  else is \<open>NaN\<close>.  Strings are byte strings here, so only the ASCII white space
  characters are recognised.
\<close>

definition is_space :: "char \<Rightarrow> bool" where
  "is_space c = (of_char c \<in> {9, 10, 11, 12, 13, 32 :: nat})"

definition is_digit :: "char \<Rightarrow> bool" where
  "is_digit c = (48 \<le> (of_char c :: nat) \<and> (of_char c :: nat) \<le> 57)"

definition digit_value :: "char \<Rightarrow> nat" where
  "digit_value c = of_char c - 48"

definition digits_value :: "nat \<Rightarrow> (char \<Rightarrow> nat) \<Rightarrow> string \<Rightarrow> nat" where
  "digits_value base dv s = foldl (\<lambda>acc c. acc * base + dv c) 0 s"

definition trim :: "string \<Rightarrow> string" where
  "trim s = rev (dropWhile is_space (rev (dropWhile is_space s)))"

definition is_hex_digit :: "char \<Rightarrow> bool" where
  "is_hex_digit c = (is_digit c
     \<or> (65 \<le> (of_char c :: nat) \<and> (of_char c :: nat) \<le> 70)
     \<or> (97 \<le> (of_char c :: nat) \<and> (of_char c :: nat) \<le> 102))"

definition hex_value :: "char \<Rightarrow> nat" where
  "hex_value c = (if is_digit c then of_char c - 48
                  else if (of_char c :: nat) \<le> 70 then of_char c - 55
                  else of_char c - 87)"

definition is_octal_digit :: "char \<Rightarrow> bool" where
  "is_octal_digit c = (48 \<le> (of_char c :: nat) \<and> (of_char c :: nat) \<le> 55)"

definition is_binary_digit :: "char \<Rightarrow> bool" where
  "is_binary_digit c = (c = CHR ''0'' \<or> c = CHR ''1'')"

text \<open>An exponent part after the letter \<open>e\<close>: an optionally signed, non-empty run of digits.\<close>

definition signed_integer :: "string \<Rightarrow> int option" where
  "signed_integer s =
     (case s of
        [] \<Rightarrow> None
      | c # t \<Rightarrow>
          (let (neg, ds) = (if c = CHR ''-'' then (True, t)
                            else if c = CHR ''+'' then (False, t) else (False, s))
           in if ds = [] \<or> \<not> list_all is_digit ds then None
              else Some (if neg then - int (digits_value 10 digit_value ds)
                         else int (digits_value 10 digit_value ds))))"

definition scale10 :: "rat \<Rightarrow> int \<Rightarrow> rat" where
  "scale10 m e = (if 0 \<le> e then m * 10 ^ nat e else m / 10 ^ nat (- e))"

text \<open>\<open>StrUnsignedDecimalLiteral\<close>; \<open>NaN\<close> when the text is not one.\<close>

definition unsigned_decimal :: "string \<Rightarrow> number" where
  "unsigned_decimal s =
     (if s = ''Infinity'' then PInf
      else
        let ip = takeWhile is_digit s;
            r1 = dropWhile is_digit s;
            (fp, r2) = (case r1 of
                          c # t \<Rightarrow> if c = CHR ''.''
                                   then (takeWhile is_digit t, dropWhile is_digit t)
                                   else ([], r1)
                        | [] \<Rightarrow> ([], r1));
            mant = scale10 (of_nat (digits_value 10 digit_value (ip @ fp))) (- int (length fp))
        in if ip = [] \<and> fp = [] then NaN
           else (case r2 of
                   [] \<Rightarrow> Fin mant
                 | c # t \<Rightarrow>
                     if c = CHR ''e'' \<or> c = CHR ''E''
                     then (case signed_integer t of
                             None \<Rightarrow> NaN
                           | Some e \<Rightarrow> Fin (scale10 mant e))
                     else NaN))"

text \<open>\<open>NonDecimalIntegerLiteral\<close>: \<open>None\<close> when the text does not start with such a prefix.\<close>

definition non_decimal :: "string \<Rightarrow> number option" where
  "non_decimal s =
     (case s of
        z # p # ds \<Rightarrow>
          if z \<noteq> CHR ''0'' then None
          else if p = CHR ''x'' \<or> p = CHR ''X''
            then Some (if ds \<noteq> [] \<and> list_all is_hex_digit ds
                       then Fin (of_nat (digits_value 16 hex_value ds)) else NaN)
          else if p = CHR ''o'' \<or> p = CHR ''O''
            then Some (if ds \<noteq> [] \<and> list_all is_octal_digit ds
                       then Fin (of_nat (digits_value 8 digit_value ds)) else NaN)
          else if p = CHR ''b'' \<or> p = CHR ''B''
            then Some (if ds \<noteq> [] \<and> list_all is_binary_digit ds
                       then Fin (of_nat (digits_value 2 digit_value ds)) else NaN)
          else None
      | _ \<Rightarrow> None)"

definition Number :: "string \<Rightarrow> number" where
  "Number text =
     (let s = trim text
      in if s = [] then Fin 0
         else (case non_decimal s of
                 Some n \<Rightarrow> n
               | None \<Rightarrow>
                   (case s of
                      c # t \<Rightarrow>
                        if c = CHR ''-'' then - unsigned_decimal t
                        else if c = CHR ''+'' then unsigned_decimal t
                        else unsigned_decimal s
                    | [] \<Rightarrow> Fin 0)))"

section \<open>Calendar dates\<close>








section \<open>Data model (\<open>types.ts\<close>)\<close>

datatype TransactionType = DEBIT | CREDIT

record Transaction =
  tx_id :: string
  customerId :: string
  date :: string
  description :: string
  txType :: TransactionType
  amount :: number

record Customer =
  cu_id :: string
  companyId :: string
  cu_name :: string
  phone :: string
  cu_address :: string
  openingBalance :: number

record Company =
  co_id :: string
  co_name :: string
  co_address :: string
  gst :: "string option"
  financialYear :: string

record DashboardStats =
  totalBalance :: number
  totalDebit :: number
  totalCredit :: number
  activeCompanies :: nat
  activeCustomers :: nat

text \<open>The three collections held in the component's state.\<close>

record store =
  companies :: "Company list"
  customers :: "Customer list"
  transactions :: "Transaction list"

section \<open>Derived data\<close>

text \<open>\<open>txs.reduce((sum, t) => sum + t.amount, 0)\<close>\<close>

definition sum_amounts :: "Transaction list \<Rightarrow> number" where
  "sum_amounts txs = foldl (\<lambda>sum t. sum + amount t) 0 txs"

definition stats :: "store \<Rightarrow> DashboardStats" where
  "stats st =
     (let totalDebit = sum_amounts (filter (\<lambda>t. txType t = DEBIT) (transactions st));
          totalCredit = sum_amounts (filter (\<lambda>t. txType t = CREDIT) (transactions st))
      in \<lparr>totalBalance = totalCredit - totalDebit,
          totalDebit = totalDebit,
          totalCredit = totalCredit,
          activeCompanies = length (companies st),
          activeCustomers = length (customers st)\<rparr>)"

section \<open>Handlers that add records\<close>

text \<open>
  A handler that returns before calling a state setter is the result \<open>Inl\<close>: the
  state stays as it was.  The handlers report nothing on that path; the error names
  are those of the specification.  The identifier drawn by \<open>generateId()\<close> is the
  argument \<open>newId\<close>.
\<close>

datatype error = ValidationError | ParseError

definition handleAddCompany ::
  "string \<Rightarrow> string \<Rightarrow> string \<Rightarrow> string \<Rightarrow> string \<Rightarrow> store \<Rightarrow> error + store" where
  "handleAddCompany newId nameText address gstText fy st =
     (if \<not> truthy_string nameText then Inl ValidationError
      else Inr (st\<lparr>companies := companies st @
                  [\<lparr>co_id = newId, co_name = nameText, co_address = address,
                    gst = Some gstText, financialYear = fy\<rparr>]\<rparr>))"

definition handleAddCustomer ::
  "string \<Rightarrow> string option \<Rightarrow> string \<Rightarrow> string \<Rightarrow> string \<Rightarrow> store \<Rightarrow> error + store" where
  "handleAddCustomer newId selectedCompanyId nameText phoneText openingBalanceText st =
     (if \<not> truthy_selection selectedCompanyId \<or> \<not> truthy_string nameText then Inl ValidationError
      else Inr (st\<lparr>customers := customers st @
                  [\<lparr>cu_id = newId, companyId = the selectedCompanyId, cu_name = nameText,
                    phone = phoneText, cu_address = [],
                    openingBalance = or_zero (Number openingBalanceText)\<rparr>]\<rparr>))"

definition handleAddTransaction ::
  "string \<Rightarrow> string option \<Rightarrow> string \<Rightarrow> string \<Rightarrow> TransactionType \<Rightarrow> string \<Rightarrow> store
     \<Rightarrow> error + store" where
  "handleAddTransaction newId selectedCustomerId dateText desc ty amountText st =
     (if \<not> truthy_selection selectedCustomerId \<or> \<not> truthy_string amountText
      then Inl ValidationError
      else Inr (st\<lparr>transactions := transactions st @
                  [\<lparr>tx_id = newId, customerId = the selectedCustomerId, date = dateText,
                    description = desc, txType = ty, amount = Number amountText\<rparr>]\<rparr>))"


section \<open>Customer balance and running ledger\<close>


text \<open>\<open>customers.find(c => c.id === selectedCustomerId)\<close>\<close>

definition currentCustomer :: "store \<Rightarrow> string \<Rightarrow> Customer option" where
  "currentCustomer st selectedCustomerId =
     find (\<lambda>c. cu_id c = selectedCustomerId) (customers st)"








section \<open>Example states\<close>

definition emptyStore :: store where
  "emptyStore = \<lparr>companies = [], customers = [], transactions = []\<rparr>"

text \<open>\<open>companies.find(c => c.id === selectedCompanyId)\<close>\<close>

definition currentCompany :: "store \<Rightarrow> string \<Rightarrow> Company option" where
  "currentCompany st selectedCompanyId =
     find (\<lambda>c. co_id c = selectedCompanyId) (companies st)"


text \<open>One company with one customer, opening balance 1000, and two dated entries.\<close>

definition acme :: Company where
  "acme = \<lparr>co_id = ''k1'', co_name = ''Acme'', co_address = ''12 Street'',
            gst = Some ''GST1'', financialYear = ''2024-25''\<rparr>"

definition asha :: Customer where
  "asha = \<lparr>cu_id = ''c1'', companyId = ''k1'', cu_name = ''Asha'', phone = ''98'',
            cu_address = [], openingBalance = Fin 1000\<rparr>"

definition sale :: Transaction where
  "sale = \<lparr>tx_id = ''t1'', customerId = ''c1'', date = ''2024-01-01'', description = ''sale'',
            txType = CREDIT, amount = Fin 500\<rparr>"

definition refund :: Transaction where
  "refund = \<lparr>tx_id = ''t2'', customerId = ''c1'', date = ''2024-01-02'',
              description = ''refund'', txType = DEBIT, amount = Fin 200\<rparr>"

definition scenarioA :: store where
  "scenarioA = \<lparr>companies = [acme], customers = [asha], transactions = [sale, refund]\<rparr>"



section \<open>Trend chart\<close>


text \<open>\<open>text.split(sep)\<close> for a separator of one character.\<close>

fun split :: "char \<Rightarrow> string \<Rightarrow> string list" where
  "split sep [] = [[]]"
| "split sep (c # cs) =
     (if c = sep then [] # split sep cs
      else (case split sep cs of
              [] \<Rightarrow> [[c]]
            | part # parts \<Rightarrow> (c # part) # parts))"







section \<open>Backup and restore\<close>

text \<open>
  The value that \<open>JSON.parse\<close> returns.  The backup file is the text that
  \<open>JSON.stringify\<close> writes for a value; reading that text back with \<open>JSON.parse\<close>
  gives the same tree, so the text itself is not modelled.
\<close>

datatype json =
    JNull
  | JBool bool
  | JNum rat
  | JStr string
  | JArr "json list"
  | JObj "(string \<times> json) list"

text \<open>\<open>JSON.stringify\<close> writes \<open>NaN\<close> and the infinities as \<open>null\<close>.\<close>

definition number_json :: "number \<Rightarrow> json" where
  "number_json n = (case n of Fin r \<Rightarrow> JNum r | _ \<Rightarrow> JNull)"






text \<open>JavaScript truthiness of a parsed value; \<open>None\<close> is \<open>undefined\<close>.\<close>

fun truthy :: "json option \<Rightarrow> bool" where
  "truthy None = False"
| "truthy (Some JNull) = False"
| "truthy (Some (JBool b)) = b"
| "truthy (Some (JNum r)) = (r \<noteq> 0)"
| "truthy (Some (JStr s)) = (s \<noteq> [])"
| "truthy (Some (JArr xs)) = True"
| "truthy (Some (JObj kvs)) = True"

text \<open>
  The property access \<open>data.key\<close> for one of the keys read by the import.  On \<open>null\<close>
  it throws a \<open>TypeError\<close> (the outer \<open>None\<close>); an object yields the value of the key
  or \<open>undefined\<close>; a number, string, boolean or array has no such property.
\<close>

fun property :: "json \<Rightarrow> string \<Rightarrow> json option option" where
  "property JNull key = None"
| "property (JObj kvs) key = Some (map_of kvs key)"
| "property other key = Some None"

text \<open>
  What the \<open>onload\<close> callback of \<open>handleImportBackup\<close> does: it fails (with the
  alert \<open>Error reading backup file.\<close> for \<open>ParseError\<close>, with
  \<open>Invalid backup file format.\<close> for \<open>ValidationError\<close>), or the user declines the
  confirmation, or it calls the three setters with the values of the document.
\<close>

datatype import_result =
    Failed error
  | Declined
  | Replaced json json json

text \<open>
  The argument \<open>parsed\<close> is the result of \<open>JSON.parse\<close> on the file's text, \<open>None\<close>
  when it throws; \<open>confirmed\<close> is the answer to the \<open>confirm\<close> dialog.
\<close>

definition handleImportBackup :: "json option \<Rightarrow> bool \<Rightarrow> import_result" where
  "handleImportBackup parsed confirmed =
     (case parsed of
        None \<Rightarrow> Failed ParseError
      | Some data \<Rightarrow>
          (case (property data ''companies'', property data ''customers'',
                 property data ''transactions'') of
             (Some cs, Some cus, Some txs) \<Rightarrow>
               if truthy cs \<and> truthy cus \<and> truthy txs
               then (if confirmed then Replaced (the cs) (the cus) (the txs) else Declined)
               else Failed ValidationError
           | _ \<Rightarrow> Failed ParseError))"

text \<open>
  Reading a stored value at the type its state variable declares.  The setters store
  whatever the document held; a value is read as a record only if it has the record's
  keys with values of the right kind.  A \<open>null\<close> in a numeric field is read as \<open>0\<close>: the
  functions of this model use such a field only as an operand of \<open>+\<close> and \<open>-\<close> and under
  \<open>|| 0\<close>, where \<open>null\<close> acts as \<open>0\<close>.
\<close>

definition string_field :: "(string \<times> json) list \<Rightarrow> string \<Rightarrow> string option" where
  "string_field kvs key = (case map_of kvs key of Some (JStr s) \<Rightarrow> Some s | _ \<Rightarrow> None)"

definition number_field :: "(string \<times> json) list \<Rightarrow> string \<Rightarrow> number option" where
  "number_field kvs key =
     (case map_of kvs key of
        Some (JNum r) \<Rightarrow> Some (Fin r)
      | Some JNull \<Rightarrow> Some (Fin 0)
      | _ \<Rightarrow> None)"

definition type_field :: "(string \<times> json) list \<Rightarrow> string \<Rightarrow> TransactionType option" where
  "type_field kvs key =
     (case map_of kvs key of
        Some (JStr s) \<Rightarrow> if s = ''DEBIT'' then Some DEBIT
                          else if s = ''CREDIT'' then Some CREDIT else None
      | _ \<Rightarrow> None)"

definition company_of_json :: "json \<Rightarrow> Company option" where
  "company_of_json v =
     (case v of
        JObj kvs \<Rightarrow>
          (case (string_field kvs ''id'', string_field kvs ''name'',
                 string_field kvs ''address'', string_field kvs ''financialYear'') of
             (Some i, Some n, Some a, Some fy) \<Rightarrow>
               (case map_of kvs ''gst'' of
                  None \<Rightarrow> Some \<lparr>co_id = i, co_name = n, co_address = a, gst = None,
                                 financialYear = fy\<rparr>
                | Some (JStr g) \<Rightarrow> Some \<lparr>co_id = i, co_name = n, co_address = a,
                                          gst = Some g, financialYear = fy\<rparr>
                | _ \<Rightarrow> None)
           | _ \<Rightarrow> None)
      | _ \<Rightarrow> None)"

definition customer_of_json :: "json \<Rightarrow> Customer option" where
  "customer_of_json v =
     (case v of
        JObj kvs \<Rightarrow>
          (case (string_field kvs ''id'', string_field kvs ''companyId'',
                 string_field kvs ''name'', string_field kvs ''phone'',
                 string_field kvs ''address'', number_field kvs ''openingBalance'') of
             (Some i, Some co, Some n, Some p, Some a, Some ob) \<Rightarrow>
               Some \<lparr>cu_id = i, companyId = co, cu_name = n, phone = p, cu_address = a,
                     openingBalance = ob\<rparr>
           | _ \<Rightarrow> None)
      | _ \<Rightarrow> None)"

definition transaction_of_json :: "json \<Rightarrow> Transaction option" where
  "transaction_of_json v =
     (case v of
        JObj kvs \<Rightarrow>
          (case (string_field kvs ''id'', string_field kvs ''customerId'',
                 string_field kvs ''date'', string_field kvs ''description'',
                 type_field kvs ''type'', number_field kvs ''amount'') of
             (Some i, Some cu, Some d, Some ds, Some ty, Some am) \<Rightarrow>
               Some \<lparr>tx_id = i, customerId = cu, date = d, description = ds, txType = ty,
                     amount = am\<rparr>
           | _ \<Rightarrow> None)
      | _ \<Rightarrow> None)"

definition array_of_json :: "(json \<Rightarrow> 'a option) \<Rightarrow> json \<Rightarrow> 'a list option" where
  "array_of_json element v = (case v of JArr xs \<Rightarrow> those (map element xs) | _ \<Rightarrow> None)"

definition store_of_json :: "json \<Rightarrow> json \<Rightarrow> json \<Rightarrow> store option" where
  "store_of_json cs cus txs =
     (case (array_of_json company_of_json cs, array_of_json customer_of_json cus,
            array_of_json transaction_of_json txs) of
        (Some a, Some b, Some c) \<Rightarrow> Some \<lparr>companies = a, customers = b, transactions = c\<rparr>
      | _ \<Rightarrow> None)"

text \<open>
  The state after the import: unchanged unless the setters were called; \<open>None\<close> when
  a stored value is not of the type its state variable declares.
\<close>

definition afterImport :: "import_result \<Rightarrow> store \<Rightarrow> store option" where
  "afterImport r st =
     (case r of
        Replaced cs cus txs \<Rightarrow> store_of_json cs cus txs
      | _ \<Rightarrow> Some st)"

text \<open>A number that \<open>JSON.stringify\<close> can write.\<close>

definition isFinite :: "number \<Rightarrow> bool" where
  "isFinite n = (case n of Fin r \<Rightarrow> True | _ \<Rightarrow> False)"


section \<open>Sums\<close>

lemma foldl_amounts: "foldl (\<lambda>sum t. sum + amount t) a txs = a + sum_list (map amount txs)"
  by (induction txs arbitrary: a) (simp_all add: add.assoc)

lemma sum_amounts_sum_list: "sum_amounts txs = sum_list (map amount txs)"
  by (simp add: sum_amounts_def foldl_amounts)

section \<open>Aggregate statistics\<close>

text \<open>
  Claim C7.  For every state, \<open>stats\<close> reports as \<open>totalDebit\<close> the sum of the
  amounts of all DEBIT transactions, as \<open>totalCredit\<close> the sum of the amounts of all
  CREDIT transactions (of whatever customer), as \<open>totalBalance\<close> their difference
  credit minus debit, and as the two counts the sizes of the companies and customers
  collections.
\<close>

theorem stats_totals:
  "totalDebit (stats st) = (\<Sum>t\<leftarrow>filter (\<lambda>t. txType t = DEBIT) (transactions st). amount t)
   \<and> totalCredit (stats st) = (\<Sum>t\<leftarrow>filter (\<lambda>t. txType t = CREDIT) (transactions st). amount t)
   \<and> totalBalance (stats st) = totalCredit (stats st) - totalDebit (stats st)
   \<and> activeCompanies (stats st) = length (companies st)
   \<and> activeCustomers (stats st) = length (customers st)"
  by (simp add: stats_def Let_def sum_amounts_sum_list)

section \<open>Adding records\<close>

text \<open>
  Claim C10.  Every successful add operation (\<open>handleAddCompany\<close>,
  \<open>handleAddCustomer\<close>, \<open>handleAddTransaction\<close>) appends exactly one new record at
  the end of its own collection: the records that were there stay as they were and in
  their order, and the two other collections are unchanged.
\<close>

theorem add_appends_one_record:
  "(handleAddCompany newId nameText address gstText fy st = Inr stCo \<longrightarrow>
      (\<exists>c. companies stCo = companies st @ [c])
      \<and> customers stCo = customers st \<and> transactions stCo = transactions st)
   \<and> (handleAddCustomer newId selectedCompanyId nameText phoneText openingBalanceText st = Inr stCu \<longrightarrow>
      (\<exists>c. customers stCu = customers st @ [c])
      \<and> companies stCu = companies st \<and> transactions stCu = transactions st)
   \<and> (handleAddTransaction newId selectedCustomerId dateText desc ty amountText st = Inr stTx \<longrightarrow>
      (\<exists>t. transactions stTx = transactions st @ [t])
      \<and> companies stTx = companies st \<and> customers stTx = customers st)"
  by (auto simp: handleAddCompany_def handleAddCustomer_def handleAddTransaction_def
      split: if_splits)

theorem add_appends_one_record_witness:
  "handleAddCompany ''n1'' ''Asha'' ''12 Street'' [] ''2024-25'' emptyStore
     = Inr (emptyStore\<lparr>companies := [\<lparr>co_id = ''n1'', co_name = ''Asha'',
              co_address = ''12 Street'', gst = Some [], financialYear = ''2024-25''\<rparr>]\<rparr>)
   \<and> handleAddCustomer ''n1'' (Some ''k1'') ''Asha'' ''98'' ''1000'' emptyStore
     = Inr (emptyStore\<lparr>customers := [\<lparr>cu_id = ''n1'', companyId = ''k1'', cu_name = ''Asha'',
              phone = ''98'', cu_address = [], openingBalance = Fin 1000\<rparr>]\<rparr>)
   \<and> handleAddTransaction ''n1'' (Some ''c1'') ''2024-01-01'' ''sale'' CREDIT ''500'' emptyStore
     = Inr (emptyStore\<lparr>transactions := [\<lparr>tx_id = ''n1'', customerId = ''c1'',
              date = ''2024-01-01'', description = ''sale'', txType = CREDIT,
              amount = Fin 500\<rparr>]\<rparr>)
   \<and> (\<exists>c. companies (emptyStore\<lparr>companies := [\<lparr>co_id = ''n1'', co_name = ''Asha'',
              co_address = ''12 Street'', gst = Some [], financialYear = ''2024-25''\<rparr>]\<rparr>)
            = companies emptyStore @ [c])
   \<and> (\<exists>c. customers (emptyStore\<lparr>customers := [\<lparr>cu_id = ''n1'', companyId = ''k1'',
              cu_name = ''Asha'', phone = ''98'', cu_address = [],
              openingBalance = Fin 1000\<rparr>]\<rparr>)
            = customers emptyStore @ [c])
   \<and> (\<exists>t. transactions (emptyStore\<lparr>transactions := [\<lparr>tx_id = ''n1'', customerId = ''c1'',
              date = ''2024-01-01'', description = ''sale'', txType = CREDIT,
              amount = Fin 500\<rparr>]\<rparr>)
            = transactions emptyStore @ [t])"
proof -
  let ?co = "emptyStore\<lparr>companies := [\<lparr>co_id = ''n1'', co_name = ''Asha'',
              co_address = ''12 Street'', gst = Some [], financialYear = ''2024-25''\<rparr>]\<rparr>"
  let ?cu = "emptyStore\<lparr>customers := [\<lparr>cu_id = ''n1'', companyId = ''k1'', cu_name = ''Asha'',
              phone = ''98'', cu_address = [], openingBalance = Fin 1000\<rparr>]\<rparr>"
  let ?tx = "emptyStore\<lparr>transactions := [\<lparr>tx_id = ''n1'', customerId = ''c1'',
              date = ''2024-01-01'', description = ''sale'', txType = CREDIT,
              amount = Fin 500\<rparr>]\<rparr>"
  have a: "handleAddCompany ''n1'' ''Asha'' ''12 Street'' [] ''2024-25'' emptyStore = Inr ?co"
    by code_simp
  have b: "handleAddCustomer ''n1'' (Some ''k1'') ''Asha'' ''98'' ''1000'' emptyStore = Inr ?cu"
    by code_simp
  have c: "handleAddTransaction ''n1'' (Some ''c1'') ''2024-01-01'' ''sale'' CREDIT ''500''
             emptyStore = Inr ?tx"
    by code_simp
  note one = add_appends_one_record
      [where newId = "''n1''" and nameText = "''Asha''" and address = "''12 Street''"
         and gstText = "[]" and fy = "''2024-25''" and st = emptyStore and stCo = ?co
         and selectedCompanyId = "Some ''k1''" and phoneText = "''98''"
         and openingBalanceText = "''1000''" and stCu = ?cu
         and selectedCustomerId = "Some ''c1''" and dateText = "''2024-01-01''"
         and desc = "''sale''" and ty = CREDIT and amountText = "''500''" and stTx = ?tx]
  show ?thesis using a b c one by blast
qed

text \<open>
  Claim C3, as the code has it.  \<open>handleAddTransaction\<close> returns without adding
  anything exactly when no customer is selected (the selection is \<open>null\<close> or the empty
  string) or the amount text is empty.  In every other case it appends exactly one
  transaction, whose amount is \<open>Number(amountText)\<close> whatever that is, for the selected
  identifier whether or not a customer has it, and leaves companies and customers as
  they were.
\<close>

theorem addTransaction_guard:
  "((selectedCustomerId = None \<or> selectedCustomerId = Some [] \<or> amountText = []) \<longrightarrow>
      handleAddTransaction newId selectedCustomerId dateText desc ty amountText st
        = Inl ValidationError)
   \<and> ((selectedCustomerId = Some cid \<and> cid \<noteq> [] \<and> amountText \<noteq> []) \<longrightarrow>
      handleAddTransaction newId selectedCustomerId dateText desc ty amountText st
        = Inr \<lparr>companies = companies st, customers = customers st,
               transactions = transactions st @
                 [\<lparr>tx_id = newId, customerId = cid, date = dateText, description = desc,
                   txType = ty, amount = Number amountText\<rparr>]\<rparr>)"
  by (cases st) (auto simp: handleAddTransaction_def truthy_selection_def truthy_string_def)

theorem addTransaction_guard_witness:
  "handleAddTransaction ''t1'' (Some ''c1'') ''2024-01-01'' ''sale'' CREDIT [] emptyStore
     = Inl ValidationError
   \<and> handleAddTransaction ''t1'' (Some ''c1'') ''2024-01-01'' ''sale'' CREDIT ''500'' emptyStore
     = Inr \<lparr>companies = [], customers = [],
            transactions = [\<lparr>tx_id = ''t1'', customerId = ''c1'', date = ''2024-01-01'',
              description = ''sale'', txType = CREDIT, amount = Fin 500\<rparr>]\<rparr>"
proof -
  have n: "Number ''500'' = Fin 500"
    by code_simp
  show ?thesis
    using addTransaction_guard
            [where selectedCustomerId = "Some ''c1''" and amountText = "[]" and newId = "''t1''"
               and dateText = "''2024-01-01''" and desc = "''sale''" and ty = CREDIT
               and st = emptyStore and cid = "''c1''"]
          addTransaction_guard
            [where selectedCustomerId = "Some ''c1''" and amountText = "''500''"
               and newId = "''t1''" and dateText = "''2024-01-01''" and desc = "''sale''"
               and ty = CREDIT and st = emptyStore and cid = "''c1''"]
    by (simp add: n emptyStore_def)
qed

text \<open>
  The claim as stated fails: a transaction for an identifier that no customer has, with
  a negative amount, is stored; so are a zero amount and a text that is no number.
\<close>

theorem addTransaction_stores_invalid:
  "currentCustomer emptyStore ''ghost'' = None
   \<and> handleAddTransaction ''t9'' (Some ''ghost'') ''2024-01-01'' ''x'' DEBIT ''-5'' emptyStore
     = Inr \<lparr>companies = [], customers = [],
            transactions = [\<lparr>tx_id = ''t9'', customerId = ''ghost'', date = ''2024-01-01'',
              description = ''x'', txType = DEBIT, amount = Fin (- 5)\<rparr>]\<rparr>
   \<and> handleAddTransaction ''t9'' (Some ''ghost'') ''2024-01-01'' ''x'' DEBIT ''0'' emptyStore
     = Inr \<lparr>companies = [], customers = [],
            transactions = [\<lparr>tx_id = ''t9'', customerId = ''ghost'', date = ''2024-01-01'',
              description = ''x'', txType = DEBIT, amount = Fin 0\<rparr>]\<rparr>
   \<and> handleAddTransaction ''t9'' (Some ''ghost'') ''2024-01-01'' ''x'' DEBIT ''abc'' emptyStore
     = Inr \<lparr>companies = [], customers = [],
            transactions = [\<lparr>tx_id = ''t9'', customerId = ''ghost'', date = ''2024-01-01'',
              description = ''x'', txType = DEBIT, amount = NaN\<rparr>]\<rparr>"
  by code_simp

text \<open>
  Claim C4, as the code has it.  \<open>handleAddCustomer\<close> returns without adding anything
  exactly when the name is empty or no company is selected (the selection is \<open>null\<close>
  or the empty string).  In every other case it appends exactly one customer for the
  selected identifier, whether or not a company has it; the opening balance is
  \<open>Number(openingBalanceText)\<close>, and \<open>0\<close> when the text is no number.
\<close>

theorem addCustomer_guard:
  "((selectedCompanyId = None \<or> selectedCompanyId = Some [] \<or> nameText = []) \<longrightarrow>
      handleAddCustomer newId selectedCompanyId nameText phoneText openingBalanceText st
        = Inl ValidationError)
   \<and> ((selectedCompanyId = Some coid \<and> coid \<noteq> [] \<and> nameText \<noteq> []) \<longrightarrow>
      handleAddCustomer newId selectedCompanyId nameText phoneText openingBalanceText st
        = Inr \<lparr>companies = companies st,
               customers = customers st @
                 [\<lparr>cu_id = newId, companyId = coid, cu_name = nameText, phone = phoneText,
                   cu_address = [],
                   openingBalance = (if Number openingBalanceText = NaN then Fin 0
                                     else Number openingBalanceText)\<rparr>],
               transactions = transactions st\<rparr>)"
  by (cases st)
     (auto simp: handleAddCustomer_def truthy_selection_def truthy_string_def
                 or_zero_def truthy_number_def)

theorem addCustomer_guard_witness:
  "handleAddCustomer ''c1'' (Some ''k1'') [] ''98'' ''1000'' emptyStore = Inl ValidationError
   \<and> handleAddCustomer ''c1'' (Some ''k1'') ''Asha'' ''98'' ''1000'' emptyStore
     = Inr \<lparr>companies = [],
            customers = [\<lparr>cu_id = ''c1'', companyId = ''k1'', cu_name = ''Asha'',
              phone = ''98'', cu_address = [], openingBalance = Fin 1000\<rparr>],
            transactions = []\<rparr>"
proof -
  have n: "Number ''1000'' = Fin 1000"
    by code_simp
  show ?thesis
    using addCustomer_guard
            [where selectedCompanyId = "Some ''k1''" and nameText = "[]" and newId = "''c1''"
               and phoneText = "''98''" and openingBalanceText = "''1000''"
               and st = emptyStore and coid = "''k1''"]
          addCustomer_guard
            [where selectedCompanyId = "Some ''k1''" and nameText = "''Asha''" and newId = "''c1''"
               and phoneText = "''98''" and openingBalanceText = "''1000''"
               and st = emptyStore and coid = "''k1''"]
    by (simp add: n emptyStore_def)
qed

text \<open>
  The claim as stated fails: a customer is stored for a company identifier that no
  company has.
\<close>

theorem addCustomer_unknown_company:
  "currentCompany emptyStore ''ghost'' = None
   \<and> handleAddCustomer ''c9'' (Some ''ghost'') ''Bob'' [] ''abc'' emptyStore
     = Inr \<lparr>companies = [],
            customers = [\<lparr>cu_id = ''c9'', companyId = ''ghost'', cu_name = ''Bob'',
              phone = [], cu_address = [], openingBalance = Fin 0\<rparr>],
            transactions = []\<rparr>"
  by code_simp





section \<open>The sort of the ledger\<close>





section \<open>Rows of the ledger\<close>













section \<open>Balance and running ledger\<close>











section \<open>Deleting a transaction\<close>









section \<open>Trend buckets\<close>





section \<open>Export and import\<close>


lemma number_roundtrip:
  "isFinite n \<Longrightarrow> number_field [(k, number_json n)] k = Some n"
  by (cases n) (simp_all add: number_field_def number_json_def isFinite_def)










text \<open>
  Claim C5, as the code has it.  The import fails with \<open>ParseError\<close> when the text
  cannot be parsed (or is the document \<open>null\<close>).  Otherwise it reads the fields
  \<open>companies\<close>, \<open>customers\<close> and \<open>transactions\<close> of the document and tests each for a
  truthy value, not for being a sequence: when one is missing or falsy it fails with
  \<open>ValidationError\<close>; when all three are truthy it replaces, after the confirmation,
  the three collections by the three values of the document in one step, and does
  nothing when the confirmation is declined.  After a failure or a declined confirmation
  the state is the one before the call.  A document without \<open>transactions\<close> fails with
  \<open>ValidationError\<close>.
\<close>

theorem import_checks_presence:
  "handleImportBackup None confirmed = Failed ParseError
   \<and> handleImportBackup (Some JNull) confirmed = Failed ParseError
   \<and> (property data ''companies'' = Some cs \<and> property data ''customers'' = Some cus
        \<and> property data ''transactions'' = Some txs
        \<and> \<not> (truthy cs \<and> truthy cus \<and> truthy txs)
      \<longrightarrow> handleImportBackup (Some data) confirmed = Failed ValidationError)
   \<and> (property data ''companies'' = Some (Some a) \<and> property data ''customers'' = Some (Some b)
        \<and> property data ''transactions'' = Some (Some c)
        \<and> truthy (Some a) \<and> truthy (Some b) \<and> truthy (Some c)
      \<longrightarrow> handleImportBackup (Some data) True = Replaced a b c
          \<and> handleImportBackup (Some data) False = Declined)
   \<and> afterImport (Failed e) st = Some st
   \<and> afterImport Declined st = Some st
   \<and> (store_of_json a b c = Some st' \<longrightarrow> afterImport (Replaced a b c) st = Some st')
   \<and> handleImportBackup (Some (JObj [(''companies'', JArr xs), (''customers'', JArr ys)]))
         confirmed
       = Failed ValidationError"
  by (auto simp: handleImportBackup_def afterImport_def)

theorem import_checks_presence_witness:
  "handleImportBackup
       (Some (JObj [(''companies'', JArr []), (''customers'', JArr []),
                    (''transactions'', JNum 0)])) True
     = Failed ValidationError
   \<and> handleImportBackup
       (Some (JObj [(''companies'', JArr []), (''customers'', JArr []),
                    (''transactions'', JArr [])])) True
     = Replaced (JArr []) (JArr []) (JArr [])
   \<and> handleImportBackup
       (Some (JObj [(''companies'', JArr []), (''customers'', JArr []),
                    (''transactions'', JArr [])])) False
     = Declined
   \<and> afterImport (Replaced (JArr []) (JArr []) (JArr [])) scenarioA = Some emptyStore"
proof -
  let ?bad = "JObj [(''companies'', JArr []), (''customers'', JArr []),
                    (''transactions'', JNum 0)]"
  let ?good = "JObj [(''companies'', JArr []), (''customers'', JArr []),
                     (''transactions'', JArr [])]"
  have bad: "property ?bad ''companies'' = Some (Some (JArr []))
             \<and> property ?bad ''customers'' = Some (Some (JArr []))
             \<and> property ?bad ''transactions'' = Some (Some (JNum 0))
             \<and> \<not> (truthy (Some (JArr [])) \<and> truthy (Some (JArr [])) \<and> truthy (Some (JNum 0)))"
    by simp
  have good: "property ?good ''companies'' = Some (Some (JArr []))
             \<and> property ?good ''customers'' = Some (Some (JArr []))
             \<and> property ?good ''transactions'' = Some (Some (JArr []))
             \<and> truthy (Some (JArr [])) \<and> truthy (Some (JArr [])) \<and> truthy (Some (JArr []))"
    by simp
  have dec: "store_of_json (JArr []) (JArr []) (JArr []) = Some emptyStore"
    by code_simp
  have one: "handleImportBackup (Some ?bad) True = Failed ValidationError"
    using import_checks_presence
            [where data = ?bad and cs = "Some (JArr [])" and cus = "Some (JArr [])"
               and txs = "Some (JNum 0)" and confirmed = True]
          bad
    by blast
  have two: "handleImportBackup (Some ?good) True = Replaced (JArr []) (JArr []) (JArr [])
             \<and> handleImportBackup (Some ?good) False = Declined
             \<and> afterImport (Replaced (JArr []) (JArr []) (JArr [])) scenarioA = Some emptyStore"
    using import_checks_presence
            [where data = ?good and a = "JArr []" and b = "JArr []" and c = "JArr []"
               and st = scenarioA and st' = emptyStore]
          good dec
    by blast
  from one two show ?thesis
    by blast
qed

text \<open>
  The claim as stated fails: a document whose three fields are a number, a string and
  a boolean passes the check and is committed; the collections then hold no sequences.
\<close>

theorem import_accepts_non_sequences:
  "handleImportBackup (Some (JObj [(''companies'', JNum 1), (''customers'', JStr ''x''),
                                   (''transactions'', JBool True)])) True
     = Replaced (JNum 1) (JStr ''x'') (JBool True)
   \<and> afterImport (Replaced (JNum 1) (JStr ''x'') (JBool True)) scenarioA = None"
  by code_simp

end
